theory Spec2Isabelle
  imports Complex_Main "HOL-Library.Multiset"
begin

section \<open>Data model\<close>

text \<open>
  The program is one Python function, \<^verbatim>\<open>process_temu_selection\<close> in \<^verbatim>\<open>app.py\<close>, built on
  pandas. A spreadsheet cell is a string, a number or empty (pandas' NaN). Numbers are
  modelled as reals: rounding of binary floating point and the infinities are not modelled.
  Strings are byte lists (UTF-8), so the Chinese headers of \<^verbatim>\<open>COLUMN_MAP\<close> are
  written as bytes.
\<close>

datatype cell = Str string | Num real | NaN

text \<open>
  A row of a DataFrame gives a cell for every label; labels outside the frame's
  \<open>columns\<close> read as NaN and are never looked at without a test on \<open>columns\<close>.
  A frame does not repeat a label: a table in which two columns end up with the same label
  (two headers equal after trimming, or an alias next to its canonical name) is outside this
  model, see \<open>distinct_labels\<close> below.
\<close>

type_synonym row = "string \<Rightarrow> cell"

record frame =
  columns :: "string list"
  rows :: "row list"

text \<open>Python exceptions that the function does not catch.\<close>

datatype py_error = TypeError | KeyError

definition bnd :: "py_error + 'a \<Rightarrow> ('a \<Rightarrow> py_error + 'b) \<Rightarrow> py_error + 'b" where
  "bnd m f = (case m of Inl e \<Rightarrow> Inl e | Inr x \<Rightarrow> f x)"

fun map_err :: "('a \<Rightarrow> py_error + 'b) \<Rightarrow> 'a list \<Rightarrow> py_error + 'b list" where
  "map_err f [] = Inr []"
| "map_err f (x # xs) = bnd (f x) (\<lambda>y. bnd (map_err f xs) (\<lambda>ys. Inr (y # ys)))"

text \<open>
  Comparisons of a cell with a number, as Python and pandas evaluate them: NaN compares
  False, a string against a number raises TypeError.
\<close>

fun cell_gt :: "cell \<Rightarrow> real \<Rightarrow> py_error + bool" where
  "cell_gt (Num v) x = Inr (v > x)"
| "cell_gt NaN x = Inr False"
| "cell_gt (Str s) x = Inl TypeError"

fun cell_lt :: "cell \<Rightarrow> real \<Rightarrow> py_error + bool" where
  "cell_lt (Num v) x = Inr (v < x)"
| "cell_lt NaN x = Inr False"
| "cell_lt (Str s) x = Inl TypeError"

fun cell_ge :: "cell \<Rightarrow> real \<Rightarrow> py_error + bool" where
  "cell_ge (Num v) x = Inr (v \<ge> x)"
| "cell_ge NaN x = Inr False"
| "cell_ge (Str s) x = Inl TypeError"

fun cell_le :: "cell \<Rightarrow> real \<Rightarrow> py_error + bool" where
  "cell_le (Num v) x = Inr (v \<le> x)"
| "cell_le NaN x = Inr False"
| "cell_le (Str s) x = Inl TypeError"

section \<open>Scoring (lines 102-129)\<close>

text \<open>
  \<^verbatim>\<open>asin_counts\<close> is the Series returned by \<^verbatim>\<open>value_counts\<close>: a table from
  identifier to count. \<^verbatim>\<open>asin_counts.get(asin, 1)\<close> reads it with default 1.
\<close>

type_synonym counts = "cell \<Rightarrow> nat option"

definition series_get :: "counts \<Rightarrow> cell \<Rightarrow> nat \<Rightarrow> nat" where
  "series_get s k d = (case s k of None \<Rightarrow> d | Some n \<Rightarrow> n)"

text \<open>\<^verbatim>\<open>row.get(col, 0)\<close>: the cell if the row has the label, else 0.\<close>

definition row_get :: "string list \<Rightarrow> row \<Rightarrow> string \<Rightarrow> cell" where
  "row_get cols r c = (if c \<in> set cols then r c else Num 0)"

text \<open>
  \<^verbatim>\<open>calculate_score(row)\<close>. \<open>cols\<close> is the index of the row Series, which is the column
  list of \<^verbatim>\<open>unique_df\<close>. The chained comparison \<^verbatim>\<open>20 <= price <= 40\<close> evaluates its
  second half only when the first holds; the \<^verbatim>\<open>elif\<close> is evaluated only when the chain
  is false.
\<close>

definition calculate_score :: "counts \<Rightarrow> string list \<Rightarrow> row \<Rightarrow> py_error + int" where
  "calculate_score asin_counts cols r =
     (if ''ASIN'' \<notin> set cols then Inl KeyError
      else
        let score = (50 :: int);
            asin = r ''ASIN'';
            count = series_get asin_counts asin 1;
            score = (if count = 2 then score + 30
                     else if count \<ge> 3 then score + 50 else score)
        in bnd (cell_gt (row_get cols r ''Monthly_Sales'') 500) (\<lambda>sales_hit.
           let score = (if sales_hit then score + 10 else score);
               price = row_get cols r ''Price''
           in bnd (cell_ge price 20) (\<lambda>lo.
              bnd (if lo then cell_le price 40 else Inr False) (\<lambda>band.
              bnd (if band then Inr False else cell_lt price 15) (\<lambda>cheap.
              let score = (if band then score + 10
                           else if cheap then score - 10 else score)
              in bnd (cell_gt (row_get cols r ''Sales_Growth'') 50) (\<lambda>growth_hit.
                 Inr (if growth_hit then score + 10 else score)))))))"

text \<open>The four adjustments as the specification words them.\<close>

definition overlap_bonus :: "nat \<Rightarrow> int" where
  "overlap_bonus n = (if n = 2 then 30 else if n \<ge> 3 then 50 else 0)"

definition sales_bonus :: "real \<Rightarrow> int" where
  "sales_bonus monthly_sales = (if monthly_sales > 500 then 10 else 0)"

definition price_adjustment :: "real \<Rightarrow> int" where
  "price_adjustment price =
     (if 20 \<le> price \<and> price \<le> 40 then 10 else 0) + (if price < 15 then - 10 else 0)"

definition growth_bonus :: "real \<Rightarrow> int" where
  "growth_bonus sales_growth = (if sales_growth > 50 then 10 else 0)"

text \<open>
  The number scoring reads from a designated numeric field of a row: the number in the
  cell, 0 when the frame has no such column (and 0 for a cell that holds no number, which
  does not occur after coercion).
\<close>

definition field_value :: "string list \<Rightarrow> row \<Rightarrow> string \<Rightarrow> real" where
  "field_value cols r c = (case row_get cols r c of Num v \<Rightarrow> v | _ \<Rightarrow> 0)"

section \<open>Configuration (lines 9-26)\<close>

text \<open>
  \<^verbatim>\<open>COLUMN_MAP\<close>, canonical field name first, spreadsheet header second, in the order of
  the dictionary. The headers are the UTF-8 bytes of the Chinese strings of the source.
\<close>

definition COLUMN_MAP :: "(string \<times> string) list" where
  "COLUMN_MAP =
     [(''ASIN'', ''ASIN''),
      (''Title'', [CHR 0xE6, CHR 0xA0, CHR 0x87, CHR 0xE9, CHR 0xA2, CHR 0x98]),
      (''Price'', [CHR 0xE4, CHR 0xBB, CHR 0xB7, CHR 0xE6, CHR 0xA0, CHR 0xBC]),
      (''Monthly_Sales'',
         [CHR 0xE6, CHR 0x9C, CHR 0x88, CHR 0xE9, CHR 0x94, CHR 0x80, CHR 0xE9, CHR 0x87,
          CHR 0x8F]),
      (''Sales_Growth'',
         [CHR 0xE8, CHR 0xBF, CHR 0x91, CHR 0x33, CHR 0x30, CHR 0xE5, CHR 0xA4, CHR 0xA9,
          CHR 0xE9, CHR 0x94, CHR 0x80, CHR 0xE9, CHR 0x87, CHR 0x8F, CHR 0xE5, CHR 0xA2,
          CHR 0x9E, CHR 0xE9, CHR 0x95, CHR 0xBF, CHR 0xE7, CHR 0x8E, CHR 0x87]),
      (''Revenue_Change'',
         [CHR 0xE6, CHR 0x9C, CHR 0x88, CHR 0xE9, CHR 0x94, CHR 0x80, CHR 0xE5, CHR 0x94,
          CHR 0xAE, CHR 0xE9, CHR 0xA2, CHR 0x9D, CHR 0xE5, CHR 0xA2, CHR 0x9E, CHR 0xE9,
          CHR 0x95, CHR 0xBF, CHR 0xE7, CHR 0x8E, CHR 0x87]),
      (''Price_Change'',
         [CHR 0xE4, CHR 0xBB, CHR 0xB7, CHR 0xE6, CHR 0xA0, CHR 0xBC, CHR 0xE5, CHR 0x8F,
          CHR 0x98, CHR 0xE5, CHR 0x8C, CHR 0x96]),
      (''Ratings'',
         [CHR 0xE8, CHR 0xAF, CHR 0x84, CHR 0xE5, CHR 0x88, CHR 0x86, CHR 0xE6, CHR 0x95,
          CHR 0xB0]),
      (''Launch_Date'',
         [CHR 0xE4, CHR 0xB8, CHR 0x8A, CHR 0xE6, CHR 0x9E, CHR 0xB6, CHR 0xE6, CHR 0x97,
          CHR 0xB6, CHR 0xE9, CHR 0x97, CHR 0xB4]),
      (''Brand'', [CHR 0xE5, CHR 0x93, CHR 0x81, CHR 0xE7, CHR 0x89, CHR 0x8C]),
      (''Weight'', [CHR 0xE9, CHR 0x87, CHR 0x8D, CHR 0xE9, CHR 0x87, CHR 0x8F]),
      (''Image_URL'',
         [CHR 0xE4, CHR 0xB8, CHR 0xBB, CHR 0xE5, CHR 0x9B, CHR 0xBE, CHR 0xE9, CHR 0x93,
          CHR 0xBE, CHR 0xE6, CHR 0x8E, CHR 0xA5]),
      (''SKU'', ''SKU'')]"

definition BLOCK_BRANDS :: "string list" where
  "BLOCK_BRANDS =
     [''OXO'', ''Ninja'', ''KitchenAid'', ''Keurig'', ''AmazonBasics'', ''Cuisinart'']"

section \<open>Reading and merging (lines 34-57)\<close>

text \<open>
  What \<^verbatim>\<open>pd.read_excel\<close> hands over: a header row and the data rows below it. A data
  row shorter than the header row is empty in the remaining columns.
\<close>

record sheet =
  headers :: "string list"
  body :: "cell list list"

text \<open>
  \<^verbatim>\<open>str.strip()\<close>: removes leading and trailing whitespace. The ASCII whitespace
  characters of Python are modelled; whitespace outside ASCII is not.
\<close>

definition is_space :: "char \<Rightarrow> bool" where
  "is_space c =
     (c \<in> set [CHR 0x09, CHR 0x0A, CHR 0x0B, CHR 0x0C, CHR 0x0D,
                CHR 0x1C, CHR 0x1D, CHR 0x1E, CHR 0x1F, CHR 0x20])"

definition strip :: "string \<Rightarrow> string" where
  "strip s = rev (dropWhile is_space (rev (dropWhile is_space s)))"

definition row_of :: "string list \<Rightarrow> cell list \<Rightarrow> row" where
  "row_of hs cs = (\<lambda>c. case map_of (zip hs cs) c of Some v \<Rightarrow> v | None \<Rightarrow> NaN)"

text \<open>Lines 41-44: the frame of a sheet, with trimmed headers.\<close>

definition frame_of_sheet :: "sheet \<Rightarrow> frame" where
  "frame_of_sheet sh =
     (let cols = map strip (headers sh)
      in \<lparr>columns = cols, rows = map (row_of cols) (body sh)\<rparr>)"

text \<open>
  \<^verbatim>\<open>df[c] = ...\<close>: sets column \<open>c\<close> in every row, appending the label when it is new.
  \<open>assign\<close> takes the new cell as a function of the row, \<open>assign_list\<close> takes a
  Series aligned with the rows.
\<close>

definition add_label :: "string \<Rightarrow> string list \<Rightarrow> string list" where
  "add_label c cols = (if c \<in> set cols then cols else cols @ [c])"

definition assign :: "string \<Rightarrow> (row \<Rightarrow> cell) \<Rightarrow> frame \<Rightarrow> frame" where
  "assign c f df =
     \<lparr>columns = add_label c (columns df), rows = map (\<lambda>r. r(c := f r)) (rows df)\<rparr>"

definition assign_list :: "string \<Rightarrow> cell list \<Rightarrow> frame \<Rightarrow> frame" where
  "assign_list c vs df =
     \<lparr>columns = add_label c (columns df),
      rows = map (\<lambda>(r, v). r(c := v)) (zip (rows df) vs)\<rparr>"

text \<open>
  The loop of lines 38-51. A source is the outcome of \<^verbatim>\<open>pd.read_excel\<close> on its path,
  \<open>None\<close> when it raised, paired with the source name. The first source that fails makes
  the function return \<^verbatim>\<open>None\<close>, which is \<open>None\<close> here.
\<close>

fun read_all :: "(sheet option \<times> string) list \<Rightarrow> frame list \<Rightarrow> frame list option" where
  "read_all [] all_data = Some all_data"
| "read_all ((src, source_name) # rest) all_data =
     (case src of
        None \<Rightarrow> None
      | Some sh \<Rightarrow>
          read_all rest
            (all_data @ [assign ''Source_List'' (\<lambda>r. Str source_name) (frame_of_sheet sh)]))"

text \<open>
  \<^verbatim>\<open>pd.concat(all_data, ignore_index=True)\<close>: the rows of all frames in input order,
  over the union of their labels in order of first appearance. A row has NaN in the columns
  its source did not have.
\<close>

definition union_labels :: "string list \<Rightarrow> string list" where
  "union_labels cs = fold add_label cs []"

definition concat_frames :: "frame list \<Rightarrow> frame" where
  "concat_frames fs =
     \<lparr>columns = union_labels (concat (map columns fs)), rows = concat (map rows fs)\<rparr>"

section \<open>Renaming and numeric coercion (lines 61-71)\<close>

text \<open>
  Line 61: header to canonical name, for the headers that occur. A later entry of a
  Python dictionary comprehension replaces an earlier one with the same key.
\<close>

definition rename_dict :: "string list \<Rightarrow> (string \<times> string) list" where
  "rename_dict cols = map (\<lambda>(k, v). (v, k)) (filter (\<lambda>(k, v). v \<in> set cols) COLUMN_MAP)"

definition new_label :: "(string \<times> string) list \<Rightarrow> string \<Rightarrow> string" where
  "new_label d c = (case map_of (rev d) c of Some k \<Rightarrow> k | None \<Rightarrow> c)"

definition rename_columns :: "frame \<Rightarrow> frame" where
  "rename_columns df =
     (let cols = columns df; d = rename_dict cols
      in \<lparr>columns = map (new_label d) cols,
          rows = map (\<lambda>r c'. case find (\<lambda>c. new_label d c = c') cols of
                                 Some c \<Rightarrow> r c | None \<Rightarrow> NaN) (rows df)\<rparr>)"

text \<open>
  The labels of every frame read, and of the merged frame after renaming, are distinct.
  pandas behaves differently on repeated labels (selecting such a label yields a table, not
  a column); the statements about the whole pipeline are made under this condition.
\<close>

definition distinct_labels :: "frame list \<Rightarrow> bool" where
  "distinct_labels all_data =
     (list_all (\<lambda>df. distinct (columns df)) all_data \<and>
      distinct (columns (rename_columns (concat_frames all_data))))"

fun is_str :: "cell \<Rightarrow> bool" where
  "is_str (Str s) = True"
| "is_str c = False"

text \<open>
  \<^verbatim>\<open>df[c].dtype == object\<close>: a column read from spreadsheets has dtype object when it
  holds a string, and when the frame has no rows; a column of numbers and empty cells has a
  numeric dtype.
\<close>

definition is_object :: "frame \<Rightarrow> string \<Rightarrow> bool" where
  "is_object df c = (rows df = [] \<or> list_ex (\<lambda>r. is_str (r c)) (rows df))"

definition str_replace :: "char \<Rightarrow> string \<Rightarrow> string" where
  "str_replace ch s = filter (\<lambda>x. x \<noteq> ch) s"

text \<open>
  Line 70, \<^verbatim>\<open>astype(str).str.replace('%', '').str.replace(',', '')\<close>. A number or an
  empty cell of an object column is written out by \<^verbatim>\<open>astype(str)\<close> without either
  character and is read back by \<^verbatim>\<open>to_numeric\<close> as what it was (\<^verbatim>\<open>'nan'\<close> as NaN), so
  the model leaves it in place.
\<close>

fun strip_marks :: "cell \<Rightarrow> cell" where
  "strip_marks (Str s) = Str (str_replace (CHR '','') (str_replace (CHR ''%'') s))"
| "strip_marks c = c"

text \<open>
  \<^verbatim>\<open>pd.to_numeric(..., errors='coerce')\<close>. The reader of number literals belongs to
  pandas and is a parameter: \<open>parse s\<close> is the number that \<open>s\<close> denotes, \<open>None\<close> when
  pandas yields NaN for it.
\<close>

fun to_numeric :: "(string \<Rightarrow> real option) \<Rightarrow> cell \<Rightarrow> cell" where
  "to_numeric parse (Str s) = (case parse s of Some v \<Rightarrow> Num v | None \<Rightarrow> NaN)"
| "to_numeric parse c = c"

fun fillna0 :: "cell \<Rightarrow> cell" where
  "fillna0 NaN = Num 0"
| "fillna0 c = c"

definition numeric_cols :: "string list" where
  "numeric_cols = [''Price'', ''Monthly_Sales'', ''Ratings'', ''Sales_Growth'']"

text \<open>The body of the loop of lines 66-71 for one column.\<close>

definition coerce_column :: "(string \<Rightarrow> real option) \<Rightarrow> string \<Rightarrow> frame \<Rightarrow> frame" where
  "coerce_column parse col df =
     (if col \<in> set (columns df)
      then
        let df = (if is_object df col then assign col (\<lambda>r. strip_marks (r col)) df else df)
        in assign col (\<lambda>r. fillna0 (to_numeric parse (r col))) df
      else df)"

definition coerce_numeric :: "(string \<Rightarrow> real option) \<Rightarrow> frame \<Rightarrow> frame" where
  "coerce_numeric parse df = fold (coerce_column parse) numeric_cols df"

text \<open>What the loop does to one cell of a designated column.\<close>

definition coerce_cell :: "(string \<Rightarrow> real option) \<Rightarrow> cell \<Rightarrow> cell" where
  "coerce_cell parse c = fillna0 (to_numeric parse (strip_marks c))"

text \<open>
  A reader of unsigned integer literals, a fragment of what \<^verbatim>\<open>to_numeric\<close> accepts, to run
  the model on concrete input.
\<close>

definition digit_of :: "char \<Rightarrow> nat option" where
  "digit_of c =
     (let n = (of_char c :: nat) in if 48 \<le> n \<and> n \<le> 57 then Some (n - 48) else None)"

fun read_digits :: "string \<Rightarrow> nat \<Rightarrow> nat option" where
  "read_digits [] acc = Some acc"
| "read_digits (c # cs) acc =
     (case digit_of c of None \<Rightarrow> None | Some d \<Rightarrow> read_digits cs (10 * acc + d))"

definition parse_digits :: "string \<Rightarrow> real option" where
  "parse_digits s = (if s = [] then None else map_option real (read_digits s 0))"

section \<open>Overlap count and deduplication (lines 79-82)\<close>

text \<open>
  \<^verbatim>\<open>value_counts()\<close>: one entry per distinct value with the number of its occurrences;
  empty cells are left out (\<^verbatim>\<open>dropna=True\<close> is the default).
\<close>

definition count_value :: "cell \<Rightarrow> counts \<Rightarrow> counts" where
  "count_value v tab =
     (if v = NaN then tab
      else tab(v \<mapsto> (case tab v of None \<Rightarrow> 1 | Some n \<Rightarrow> n + 1)))"

definition value_counts :: "cell list \<Rightarrow> counts" where
  "value_counts vs = fold count_value vs Map.empty"

text \<open>
  \<^verbatim>\<open>drop_duplicates(subset=[c])\<close> with the default \<^verbatim>\<open>keep='first'\<close>: a row is dropped when
  an earlier row has the same value in column \<open>c\<close>; empty cells count as equal.
\<close>

fun keep_first :: "string \<Rightarrow> cell list \<Rightarrow> row list \<Rightarrow> row list" where
  "keep_first c seen [] = []"
| "keep_first c seen (r # rs) =
     (if r c \<in> set seen then keep_first c seen rs else r # keep_first c (r c # seen) rs)"

definition drop_duplicates :: "string \<Rightarrow> frame \<Rightarrow> frame" where
  "drop_duplicates c df = df\<lparr>rows := keep_first c [] (rows df)\<rparr>"

section \<open>Filters (lines 87-98)\<close>

definition lower :: "char \<Rightarrow> char" where
  "lower c =
     (let n = (of_char c :: nat) in if 65 \<le> n \<and> n \<le> 90 then char_of (n + 32) else c)"

fun str_contains :: "string \<Rightarrow> string \<Rightarrow> bool" where
  "str_contains pat [] = (pat = [])"
| "str_contains pat (x # xs) = (take (length pat) (x # xs) = pat \<or> str_contains pat xs)"

text \<open>
  \<^verbatim>\<open>astype(str).str.contains(pattern, case=False, na=False)\<close> with the block list joined by
  \<^verbatim>\<open>|\<close>: some keyword occurs in the brand, letter case ignored (ASCII letters). A number
  or an empty cell is written out by \<^verbatim>\<open>astype(str)\<close> as text that holds no keyword.
\<close>

fun brand_blocked :: "cell \<Rightarrow> bool" where
  "brand_blocked (Str s) =
     list_ex (\<lambda>k. str_contains (map lower k) (map lower s)) BLOCK_BRANDS"
| "brand_blocked c = False"

definition brand_filter :: "frame \<Rightarrow> frame" where
  "brand_filter df =
     (if ''Brand'' \<in> set (columns df)
      then df\<lparr>rows := filter (\<lambda>r. \<not> brand_blocked (r ''Brand'')) (rows df)\<rparr>
      else df)"

text \<open>
  \<^verbatim>\<open>df[mask]\<close> for a mask computed row by row; computing the mask raises when a
  comparison does.
\<close>

definition select_where :: "(row \<Rightarrow> py_error + bool) \<Rightarrow> frame \<Rightarrow> py_error + frame" where
  "select_where test df =
     bnd (map_err test (rows df))
       (\<lambda>mask. Inr (df\<lparr>rows := map snd (filter fst (zip mask (rows df)))\<rparr>))"

text \<open>
  The price filter, and the frame it receives in the pipeline: coerced, deduplicated and
  filtered by brand.
\<close>

definition price_filter_input :: "(string \<Rightarrow> real option) \<Rightarrow> frame \<Rightarrow> frame" where
  "price_filter_input parse df =
     brand_filter (drop_duplicates ''ASIN'' (coerce_numeric parse df))"

definition price_filter :: "frame \<Rightarrow> py_error + frame" where
  "price_filter df =
     (if ''Price'' \<in> set (columns df)
      then select_where (\<lambda>r. cell_gt (r ''Price'') 8) df else Inr df)"

definition weight_filter :: "frame \<Rightarrow> py_error + frame" where
  "weight_filter df =
     (if ''Weight'' \<in> set (columns df)
      then select_where (\<lambda>r. cell_lt (r ''Weight'') 1000) df else Inr df)"

definition filter_stage :: "frame \<Rightarrow> py_error + frame" where
  "filter_stage df = bnd (price_filter (brand_filter df)) weight_filter"

section \<open>Scoring all rows, ranking and output (lines 131-151)\<close>

text \<open>
  \<^verbatim>\<open>unique_df.apply(calculate_score, axis=1)\<close>: the score of every row, in row order; on a
  frame without rows the result is the empty Series.
\<close>

definition apply_score :: "counts \<Rightarrow> frame \<Rightarrow> py_error + int list" where
  "apply_score asin_counts df = map_err (calculate_score asin_counts (columns df)) (rows df)"

definition tpi :: "row \<Rightarrow> real" where
  "tpi r = (case r ''TPI_Score'' of Num v \<Rightarrow> v | _ \<Rightarrow> 0)"

text \<open>
  \<^verbatim>\<open>sort_values(by='TPI_Score', ascending=False)\<close> is called with the default
  \<^verbatim>\<open>kind='quicksort'\<close>, which pandas documents as not stable: the result holds the same
  rows, in descending order of the key, and the order of rows with equal keys is left to the
  library. The sorting function is therefore a parameter \<open>srt\<close> of the model, and
  \<open>sorts_descending\<close> is what the library promises of it.
\<close>

definition sorts_descending :: "(row list \<Rightarrow> row list) \<Rightarrow> bool" where
  "sorts_descending srt =
     (\<forall>xs. mset (srt xs) = mset xs \<and> sorted_wrt (\<lambda>a b. tpi a \<ge> tpi b) (srt xs))"

definition sort_values :: "(row list \<Rightarrow> row list) \<Rightarrow> frame \<Rightarrow> frame" where
  "sort_values srt df = df\<lparr>rows := srt (rows df)\<rparr>"

definition head :: "nat \<Rightarrow> frame \<Rightarrow> frame" where
  "head n df = df\<lparr>rows := take n (rows df)\<rparr>"

text \<open>
  Two sorting functions that keep the library's promise: a stable one, and one that
  reverses the order of rows with equal keys.
\<close>

definition stable_sort :: "row list \<Rightarrow> row list" where
  "stable_sort xs = sort_key (\<lambda>r. - tpi r) xs"

definition reversing_sort :: "row list \<Rightarrow> row list" where
  "reversing_sort xs = rev (sort_key tpi xs)"

text \<open>
  Line 137, \<^verbatim>\<open>'https://www.amazon.com/dp/' + top_30['ASIN']\<close>. On an object column the
  sum is taken cell by cell: a string is appended, an empty cell stays empty, a number raises
  TypeError. On a numeric column it raises TypeError.
\<close>

fun url_of :: "cell \<Rightarrow> py_error + cell" where
  "url_of (Str s) = Inr (Str (''https://www.amazon.com/dp/'' @ s))"
| "url_of NaN = Inr NaN"
| "url_of (Num v) = Inl TypeError"

definition add_amazon_url :: "bool \<Rightarrow> frame \<Rightarrow> py_error + frame" where
  "add_amazon_url asin_is_object df =
     (if asin_is_object
      then bnd (map_err (\<lambda>r. url_of (r ''ASIN'')) (rows df))
             (\<lambda>urls. Inr (assign_list ''Amazon_URL'' urls df))
      else Inl TypeError)"

text \<open>Lines 140-147.\<close>

definition required_cols :: "string list" where
  "required_cols =
     [''TPI_Score'', ''ASIN'', ''Amazon_URL'', ''Title'', ''Price'', ''Monthly_Sales'',
      ''Sales_Growth'', ''Ratings'']"

text \<open>The required output columns that the input has to supply.\<close>

definition needed_cols :: "string list" where
  "needed_cols = [''Title'', ''Price'', ''Monthly_Sales'', ''Sales_Growth'', ''Ratings'']"

definition optional_cols :: "string list" where
  "optional_cols = [''Revenue_Change'', ''Price_Change'', ''Image_URL'', ''SKU'']"

definition output_cols :: "string list \<Rightarrow> string list" where
  "output_cols cols = required_cols @ filter (\<lambda>c. c \<in> set cols) optional_cols"

text \<open>Line 149, \<^verbatim>\<open>top_30[output_cols]\<close>: KeyError when a label is not in the frame.\<close>

definition project :: "string list \<Rightarrow> frame \<Rightarrow> py_error + frame" where
  "project cs df =
     (if list_all (\<lambda>c. c \<in> set (columns df)) cs
      then Inr \<lparr>columns = cs, rows = map (\<lambda>r c. if c \<in> set cs then r c else NaN) (rows df)\<rparr>
      else Inl KeyError)"

section \<open>The pipeline (lines 30-151)\<close>

text \<open>Lines 57-71: the merged frame, renamed and coerced.\<close>

definition full_df_of :: "(string \<Rightarrow> real option) \<Rightarrow> frame list \<Rightarrow> frame" where
  "full_df_of parse all_data = coerce_numeric parse (rename_columns (concat_frames all_data))"

text \<open>
  \<^verbatim>\<open>process_temu_selection(file_paths)\<close>. The result is \<open>Inr None\<close> when the function
  returns \<^verbatim>\<open>None\<close>, \<open>Inr (Some df)\<close> when it returns the table \<open>df\<close>, and \<open>Inl e\<close> when
  it raises \<open>e\<close>. Printing is not modelled.
\<close>

definition process_temu_selection ::
  "(string \<Rightarrow> real option) \<Rightarrow> (row list \<Rightarrow> row list) \<Rightarrow> (sheet option \<times> string) list
     \<Rightarrow> py_error + frame option" where
  "process_temu_selection parse srt file_paths =
     (case read_all file_paths [] of
        None \<Rightarrow> Inr None
      | Some all_data \<Rightarrow>
          if all_data = [] then Inr None
          else
            let full_df = full_df_of parse all_data
            in if ''ASIN'' \<notin> set (columns full_df) then Inr None
               else
                 let asin_counts = value_counts (map (\<lambda>r. r ''ASIN'') (rows full_df));
                     unique_df = drop_duplicates ''ASIN'' full_df
                 in bnd (filter_stage unique_df) (\<lambda>unique_df.
                    bnd (apply_score asin_counts unique_df) (\<lambda>scores.
                    let unique_df =
                          assign_list ''TPI_Score'' (map (\<lambda>s. Num (of_int s)) scores) unique_df;
                        top_30 = head 30 (sort_values srt unique_df)
                    in bnd (add_amazon_url (is_object full_df ''ASIN'') top_30) (\<lambda>top_30.
                       bnd (project (output_cols (columns top_30)) top_30) (\<lambda>final_result.
                       Inr (Some final_result))))))"

section \<open>Concrete inputs\<close>

text \<open>One record with overlap 3, monthly sales 600, price 25 and growth 60.\<close>

definition example_frame :: frame where
  "example_frame =
     \<lparr>columns = [''ASIN'', ''Price'', ''Monthly_Sales'', ''Sales_Growth''],
      rows = [row_of [''ASIN'', ''Price'', ''Monthly_Sales'', ''Sales_Growth'']
                [Str ''B001'', Num 25, Num 600, Num 60]]\<rparr>"

text \<open>Growth cells \<^verbatim>\<open>"45%"\<close>, \<^verbatim>\<open>"N/A"\<close> and empty; prices 8, 8.01 and empty.\<close>

definition growth_frame :: frame where
  "growth_frame =
     \<lparr>columns = [''ASIN'', ''Sales_Growth''],
      rows = [row_of [''ASIN'', ''Sales_Growth''] [Str ''B001'', Str ''45%''],
              row_of [''ASIN'', ''Sales_Growth''] [Str ''B002'', Str ''N/A''],
              row_of [''ASIN'', ''Sales_Growth''] [Str ''B003'', NaN]]\<rparr>"

definition price_frame :: frame where
  "price_frame =
     \<lparr>columns = [''ASIN'', ''Price''],
      rows = [row_of [''ASIN'', ''Price''] [Str ''B001'', Num 8],
              row_of [''ASIN'', ''Price''] [Str ''B002'', Num (801 / 100)],
              row_of [''ASIN'', ''Price''] [Str ''B003'', NaN]]\<rparr>"

text \<open>
  Two source lists: identifier B001 is in both, with different prices; B002 is in the first
  only; two rows of the second have no identifier.
\<close>

definition list_a :: frame where
  "list_a =
     \<lparr>columns = [''ASIN'', ''Price''],
      rows = [row_of [''ASIN'', ''Price''] [Str ''B001'', Num 10],
              row_of [''ASIN'', ''Price''] [Str ''B002'', Num 12]]\<rparr>"

definition list_b :: frame where
  "list_b =
     \<lparr>columns = [''ASIN'', ''Price''],
      rows = [row_of [''ASIN'', ''Price''] [Str ''B001'', Num 99],
              row_of [''ASIN'', ''Price''] [NaN, Num 30],
              row_of [''ASIN'', ''Price''] [NaN, Num 31]]\<rparr>"

text \<open>Three scored records; the first and the third have the same score.\<close>

definition tied_frame :: frame where
  "tied_frame =
     \<lparr>columns = [''ASIN'', ''TPI_Score''],
      rows = [row_of [''ASIN'', ''TPI_Score''] [Str ''B001'', Num 50],
              row_of [''ASIN'', ''TPI_Score''] [Str ''B002'', Num 60],
              row_of [''ASIN'', ''TPI_Score''] [Str ''B003'', Num 50]]\<rparr>"

text \<open>
  Inputs of the whole function: a sheet without an identifier column; a sheet with identifier
  and price only, whose one record costs 5; a sheet with all the columns of the output, whose
  one record costs 5.
\<close>

definition no_asin_input :: "(sheet option \<times> string) list" where
  "no_asin_input =
     [(Some \<lparr>headers = ['' SKU '', ''Name''], body = [[Str ''X1'', Str ''Widget'']]\<rparr>,
       ''List_A_Growth'')]"

definition cheap_input :: "(sheet option \<times> string) list" where
  "cheap_input =
     [(Some \<lparr>headers = [''ASIN'', ''Price''], body = [[Str ''B001'', Num 5]]\<rparr>,
       ''List_A_Growth'')]"

definition cheap_full_input :: "(sheet option \<times> string) list" where
  "cheap_full_input =
     [(Some \<lparr>headers = [''ASIN'', ''Title'', ''Price'', ''Monthly_Sales'', ''Sales_Growth'',
                          ''Ratings'', ''SKU''],
              body = [[Str ''B001'', Str ''Spoon'', Num 5, Num 700, Str ''60%'', Num 12,
                       Str ''S-1'']]\<rparr>,
       ''List_A_Growth'')]"

text \<open>The frames read from \<open>cheap_input\<close> and from \<open>cheap_full_input\<close>.\<close>

definition cheap_frames :: "frame list" where
  "cheap_frames =
     [assign ''Source_List'' (\<lambda>r. Str ''List_A_Growth'')
        (frame_of_sheet \<lparr>headers = [''ASIN'', ''Price''], body = [[Str ''B001'', Num 5]]\<rparr>)]"

definition cheap_full_frames :: "frame list" where
  "cheap_full_frames =
     [assign ''Source_List'' (\<lambda>r. Str ''List_A_Growth'')
        (frame_of_sheet
           \<lparr>headers = [''ASIN'', ''Title'', ''Price'', ''Monthly_Sales'', ''Sales_Growth'',
                       ''Ratings'', ''SKU''],
            body = [[Str ''B001'', Str ''Spoon'', Num 5, Num 700, Str ''60%'', Num 12,
                     Str ''S-1'']]\<rparr>)]"

section \<open>Coercion yields numbers\<close>

lemma coerce_cell_Num: "\<exists>v. coerce_cell parse c = Num v"
  by (cases c) (auto simp: coerce_cell_def split: option.splits)

lemma strip_marks_not_str: "\<not> is_str c \<Longrightarrow> strip_marks c = c"
  by (cases c) auto

lemma columns_coerce_column [simp]: "columns (coerce_column parse col df) = columns df"
  by (simp add: coerce_column_def assign_def add_label_def Let_def)

lemma rows_coerce_column:
  "rows (coerce_column parse col df) =
     (if col \<in> set (columns df)
      then map (\<lambda>r. r(col := coerce_cell parse (r col))) (rows df) else rows df)"
proof (cases "is_object df col")
  case True
  then show ?thesis
    by (simp add: coerce_column_def assign_def coerce_cell_def Let_def o_def)
next
  case False
  then have "\<forall>r\<in>set (rows df). strip_marks (r col) = r col"
    by (auto simp: is_object_def list_ex_iff strip_marks_not_str)
  with False show ?thesis
    by (simp add: coerce_column_def assign_def coerce_cell_def Let_def)
qed

lemma coerce_cell_idem [simp]: "coerce_cell parse (coerce_cell parse c) = coerce_cell parse c"
  by (cases c) (auto simp: coerce_cell_def split: option.splits)

lemma columns_fold_coerce [simp]: "columns (fold (coerce_column parse) cs df) = columns df"
  by (induction cs arbitrary: df) simp_all

lemma rows_fold_coerce:
  "rows (fold (coerce_column parse) cs df) =
     map (\<lambda>r c. if c \<in> set cs \<and> c \<in> set (columns df)
                 then coerce_cell parse (r c) else r c) (rows df)"
proof (induction cs arbitrary: df)
  case Nil
  show ?case by simp
next
  case (Cons a cs)
  show ?case
    by (simp add: Cons.IH rows_coerce_column o_def) (auto simp: fun_eq_iff)
qed

lemma columns_coerce_numeric [simp]: "columns (coerce_numeric parse df) = columns df"
  by (simp add: coerce_numeric_def)

lemma rows_coerce_numeric:
  "rows (coerce_numeric parse df) =
     map (\<lambda>r c. if c \<in> set numeric_cols \<and> c \<in> set (columns df)
                 then coerce_cell parse (r c) else r c) (rows df)"
  by (simp add: coerce_numeric_def rows_fold_coerce)

lemma coerced_cell_numeric:
  assumes "c \<in> set numeric_cols" and "c \<in> set (columns df)"
    and "r \<in> set (rows (coerce_numeric parse df))"
  shows "\<exists>v. r c = Num v"
  using assms coerce_cell_Num [of parse] by (auto simp: rows_coerce_numeric)

section \<open>Selections keep columns and drop rows\<close>

lemma map_err_Inr: "\<forall>x\<in>set xs. f x = Inr (g x) \<Longrightarrow> map_err f xs = Inr (map g xs)"
  by (induction xs) (simp_all add: bnd_def)

lemma map_err_length: "map_err f xs = Inr ys \<Longrightarrow> length ys = length xs"
  by (induction xs arbitrary: ys) (auto simp: bnd_def split: sum.splits)

lemma mask_select: "map snd (filter fst (zip (map g xs) xs)) = filter g xs"
  by (induction xs) simp_all

lemma select_where_sub:
  assumes "select_where test df = Inr df'"
  shows "columns df' = columns df \<and> set (rows df') \<subseteq> set (rows df)"
proof -
  from assms obtain mask where m: "map_err test (rows df) = Inr mask"
    and d: "df' = df\<lparr>rows := map snd (filter fst (zip mask (rows df)))\<rparr>"
    by (auto simp: select_where_def bnd_def split: sum.splits)
  have "set (map snd (filter fst (zip mask (rows df)))) \<subseteq> set (rows df)"
    by (auto dest: set_zip_rightD)
  with d show ?thesis by simp
qed

lemma brand_filter_sub:
  "columns (brand_filter df) = columns df \<and> set (rows (brand_filter df)) \<subseteq> set (rows df)"
  by (simp add: brand_filter_def)

lemma filter_stage_sub:
  assumes "filter_stage df = Inr df'"
  shows "columns df' = columns df \<and> set (rows df') \<subseteq> set (rows df)"
proof -
  from assms obtain d1 where p: "price_filter (brand_filter df) = Inr d1"
    and w: "weight_filter d1 = Inr df'"
    by (auto simp: filter_stage_def bnd_def split: sum.splits)
  from p have 1: "columns d1 = columns (brand_filter df) \<and>
      set (rows d1) \<subseteq> set (rows (brand_filter df))"
    using select_where_sub by (auto simp: price_filter_def split: if_splits)
  from w have 2: "columns df' = columns d1 \<and> set (rows df') \<subseteq> set (rows d1)"
    using select_where_sub by (auto simp: weight_filter_def split: if_splits)
  from 1 2 brand_filter_sub [of df] show ?thesis by auto
qed

lemma set_keep_first: "set (keep_first c seen rs) \<subseteq> set rs"
  by (induction rs arbitrary: seen) auto

lemma drop_duplicates_sub:
  "columns (drop_duplicates c df) = columns df \<and>
   set (rows (drop_duplicates c df)) \<subseteq> set (rows df)"
  by (simp add: drop_duplicates_def set_keep_first)

lemma survivor_numeric:
  assumes "filter_stage (drop_duplicates k (coerce_numeric parse df)) = Inr filtered"
    and "r \<in> set (rows filtered)" and "c \<in> set numeric_cols"
  shows "\<exists>v. row_get (columns filtered) r c = Num v"
proof (cases "c \<in> set (columns filtered)")
  case False
  then show ?thesis by (simp add: row_get_def)
next
  case True
  from filter_stage_sub [OF assms(1)] drop_duplicates_sub [of k "coerce_numeric parse df"]
  have cols: "columns filtered = columns df"
    and sub: "set (rows filtered) \<subseteq> set (rows (coerce_numeric parse df))"
    by auto
  from True cols have "c \<in> set (columns df)" by simp
  with assms(2,3) sub coerced_cell_numeric [of c df r parse]
  obtain v where "r c = Num v" by blast
  with True show ?thesis by (simp add: row_get_def)
qed

lemma example_filtered:
  "filter_stage (drop_duplicates ''ASIN'' (coerce_numeric parse_digits example_frame)) =
     Inr (drop_duplicates ''ASIN'' (coerce_numeric parse_digits example_frame))"
  apply (simp add: filter_stage_def price_filter_def weight_filter_def brand_filter_def
      select_where_def bnd_def drop_duplicates_def rows_coerce_numeric example_frame_def
      numeric_cols_def row_of_def coerce_cell_def)
  done

section \<open>The score\<close>

lemma calculate_score_numeric:
  assumes "''ASIN'' \<in> set cols"
    and "row_get cols r ''Monthly_Sales'' = Num ms"
    and "row_get cols r ''Price'' = Num p"
    and "row_get cols r ''Sales_Growth'' = Num g"
  shows "calculate_score asin_counts cols r =
           Inr (50 + overlap_bonus (series_get asin_counts (r ''ASIN'') 1)
                   + sales_bonus ms + price_adjustment p + growth_bonus g)"
  using assms
  by (simp add: calculate_score_def bnd_def Let_def overlap_bonus_def
      sales_bonus_def price_adjustment_def growth_bonus_def)

text \<open>
  Claim C1. For every record that survives the filter stage, the score computed by
  \<open>calculate_score\<close> is 50 plus the overlap bonus (30 for a count of 2, 50 for a count of at
  least 3, else 0), plus 10 if Monthly_Sales exceeds 500, plus the price-band adjustment (10
  for a price from 20 to 40, minus 10 for a price below 15, the two never both applying),
  plus 10 if Sales_Growth exceeds 50. A record with overlap 3, sales 600, price 25 and growth
  60 scores 130.
\<close>

theorem tpi_score_is_base_plus_adjustments:
  assumes "filter_stage (drop_duplicates ''ASIN'' (coerce_numeric parse df)) = Inr filtered"
    and "''ASIN'' \<in> set (columns filtered)"
    and "r \<in> set (rows filtered)"
  shows "calculate_score asin_counts (columns filtered) r =
           Inr (50 + overlap_bonus (series_get asin_counts (r ''ASIN'') 1)
                   + sales_bonus (field_value (columns filtered) r ''Monthly_Sales'')
                   + price_adjustment (field_value (columns filtered) r ''Price'')
                   + growth_bonus (field_value (columns filtered) r ''Sales_Growth''))
         \<and> \<not> ((20 \<le> field_value (columns filtered) r ''Price''
                 \<and> field_value (columns filtered) r ''Price'' \<le> 40)
               \<and> field_value (columns filtered) r ''Price'' < 15)
         \<and> (series_get asin_counts (r ''ASIN'') 1 = 3
              \<and> field_value (columns filtered) r ''Monthly_Sales'' = 600
              \<and> field_value (columns filtered) r ''Price'' = 25
              \<and> field_value (columns filtered) r ''Sales_Growth'' = 60
            \<longrightarrow> calculate_score asin_counts (columns filtered) r = Inr 130)"
proof -
  let ?cols = "columns filtered"
  obtain ms where ms: "row_get ?cols r ''Monthly_Sales'' = Num ms"
    using survivor_numeric [OF assms(1,3), of "''Monthly_Sales''"] by (auto simp: numeric_cols_def)
  obtain p where p: "row_get ?cols r ''Price'' = Num p"
    using survivor_numeric [OF assms(1,3), of "''Price''"] by (auto simp: numeric_cols_def)
  obtain g where g: "row_get ?cols r ''Sales_Growth'' = Num g"
    using survivor_numeric [OF assms(1,3), of "''Sales_Growth''"] by (auto simp: numeric_cols_def)
  have eq: "calculate_score asin_counts ?cols r =
           Inr (50 + overlap_bonus (series_get asin_counts (r ''ASIN'') 1)
                   + sales_bonus (field_value ?cols r ''Monthly_Sales'')
                   + price_adjustment (field_value ?cols r ''Price'')
                   + growth_bonus (field_value ?cols r ''Sales_Growth''))"
    using calculate_score_numeric [OF assms(2) ms p g] ms p g
    by (simp add: field_value_def)
  show ?thesis
    unfolding eq
    by (simp add: overlap_bonus_def sales_bonus_def price_adjustment_def growth_bonus_def)
qed

theorem tpi_score_is_base_plus_adjustments_witness:
  "let filtered = drop_duplicates ''ASIN'' (coerce_numeric parse_digits example_frame);
       r = hd (rows filtered);
       asin_counts = value_counts [Str ''B001'', Str ''B001'', Str ''B001'']
   in filter_stage (drop_duplicates ''ASIN'' (coerce_numeric parse_digits example_frame)) =
        Inr filtered
      \<and> ''ASIN'' \<in> set (columns filtered) \<and> r \<in> set (rows filtered)
      \<and> series_get asin_counts (r ''ASIN'') 1 = 3
      \<and> field_value (columns filtered) r ''Monthly_Sales'' = 600
      \<and> field_value (columns filtered) r ''Price'' = 25
      \<and> field_value (columns filtered) r ''Sales_Growth'' = 60
      \<and> calculate_score asin_counts (columns filtered) r = Inr 130"
proof -
  let ?f = "drop_duplicates ''ASIN'' (coerce_numeric parse_digits example_frame)"
  let ?r = "hd (rows ?f)"
  let ?cnt = "value_counts [Str ''B001'', Str ''B001'', Str ''B001'']"
  have c: "''ASIN'' \<in> set (columns ?f)"
    by (simp add: drop_duplicates_def example_frame_def)
  have m: "?r \<in> set (rows ?f)"
    by (simp add: drop_duplicates_def rows_coerce_numeric example_frame_def)
  have v: "series_get ?cnt (?r ''ASIN'') 1 = 3
      \<and> field_value (columns ?f) ?r ''Monthly_Sales'' = 600
      \<and> field_value (columns ?f) ?r ''Price'' = 25
      \<and> field_value (columns ?f) ?r ''Sales_Growth'' = 60"
    by (simp add: drop_duplicates_def rows_coerce_numeric example_frame_def series_get_def
        value_counts_def count_value_def field_value_def row_get_def row_of_def
        numeric_cols_def coerce_cell_def)
  from tpi_score_is_base_plus_adjustments [OF example_filtered c m, of ?cnt] v
  show ?thesis using example_filtered c m
    by (simp add: Let_def overlap_bonus_def sales_bonus_def price_adjustment_def growth_bonus_def)
qed

text \<open>
  Claim C9. For every record that reaches the scoring stage, scoring returns a score, and
  the score lies between 40 and 130 inclusive.
\<close>

theorem tpi_score_between_40_and_130:
  assumes "filter_stage (drop_duplicates ''ASIN'' (coerce_numeric parse df)) = Inr filtered"
    and "''ASIN'' \<in> set (columns filtered)"
    and "r \<in> set (rows filtered)"
  shows "\<exists>s. calculate_score asin_counts (columns filtered) r = Inr s \<and> 40 \<le> s \<and> s \<le> 130"
proof -
  let ?cols = "columns filtered"
  obtain ms where ms: "row_get ?cols r ''Monthly_Sales'' = Num ms"
    using survivor_numeric [OF assms(1,3), of "''Monthly_Sales''"] by (auto simp: numeric_cols_def)
  obtain p where p: "row_get ?cols r ''Price'' = Num p"
    using survivor_numeric [OF assms(1,3), of "''Price''"] by (auto simp: numeric_cols_def)
  obtain g where g: "row_get ?cols r ''Sales_Growth'' = Num g"
    using survivor_numeric [OF assms(1,3), of "''Sales_Growth''"] by (auto simp: numeric_cols_def)
  show ?thesis
    unfolding calculate_score_numeric [OF assms(2) ms p g]
    by (simp add: overlap_bonus_def sales_bonus_def price_adjustment_def growth_bonus_def)
qed

theorem tpi_score_between_40_and_130_witness:
  "let filtered = drop_duplicates ''ASIN'' (coerce_numeric parse_digits example_frame);
       r = hd (rows filtered)
   in filter_stage (drop_duplicates ''ASIN'' (coerce_numeric parse_digits example_frame)) =
        Inr filtered
      \<and> ''ASIN'' \<in> set (columns filtered) \<and> r \<in> set (rows filtered)
      \<and> (\<exists>s. calculate_score Map.empty (columns filtered) r = Inr s \<and> 40 \<le> s \<and> s \<le> 130)"
proof -
  let ?f = "drop_duplicates ''ASIN'' (coerce_numeric parse_digits example_frame)"
  have c: "''ASIN'' \<in> set (columns ?f)"
    by (simp add: drop_duplicates_def example_frame_def)
  have m: "hd (rows ?f) \<in> set (rows ?f)"
    by (simp add: drop_duplicates_def rows_coerce_numeric example_frame_def)
  from tpi_score_between_40_and_130 [OF example_filtered c m, of Map.empty]
  show ?thesis using example_filtered c m by (simp add: Let_def)
qed

section \<open>Numeric coercion and the price filter\<close>

lemma column_coerce_numeric:
  assumes "c \<in> set numeric_cols" and "c \<in> set (columns df)"
  shows "map (\<lambda>r. r c) (rows (coerce_numeric parse df)) =
         map (\<lambda>r. coerce_cell parse (r c)) (rows df)"
  using assms by (simp add: rows_coerce_numeric)


lemma parse_digits_45: "parse_digits ''45'' = Some 45"
  by (simp add: parse_digits_def digit_of_def)

lemma parse_digits_NA: "parse_digits ''N/A'' = None"
  by (simp add: parse_digits_def digit_of_def)


lemma price_filter_input_sub:
  "columns (price_filter_input parse df) = columns df \<and>
   set (rows (price_filter_input parse df)) \<subseteq> set (rows (coerce_numeric parse df))"
  using brand_filter_sub [of "drop_duplicates ''ASIN'' (coerce_numeric parse df)"]
    drop_duplicates_sub [of "''ASIN''" "coerce_numeric parse df"]
  by (auto simp: price_filter_input_def)

lemma select_where_total:
  assumes "\<forall>r\<in>set (rows df). test r = Inr (g r)"
  shows "select_where test df = Inr (df\<lparr>rows := filter g (rows df)\<rparr>)"
  using map_err_Inr [OF assms] by (simp add: select_where_def bnd_def mask_select)

text \<open>
  Claim C6. When the Price column is present, the price filter does not raise and keeps, in
  order, exactly the records whose price is not at most 8: every price it sees is a number, a
  record with price 8 is dropped, one with price 8.01 is kept, and an empty price, which
  coercion has turned into 0, is dropped.
\<close>

theorem price_filter_excludes_at_most_8:
  assumes "''Price'' \<in> set (columns df)"
  shows "\<exists>out. price_filter (price_filter_input parse df) = Inr out
           \<and> columns out = columns df
           \<and> rows out = filter (\<lambda>r. \<not> field_value (columns df) r ''Price'' \<le> 8)
                          (rows (price_filter_input parse df))
           \<and> (\<forall>r\<in>set (rows (price_filter_input parse df)).
                 (\<exists>v. r ''Price'' = Num v)
                 \<and> (r ''Price'' = Num 8 \<longrightarrow> r \<notin> set (rows out))
                 \<and> (r ''Price'' = Num (801 / 100) \<longrightarrow> r \<in> set (rows out))
                 \<and> (r ''Price'' = Num 0 \<longrightarrow> r \<notin> set (rows out)))
           \<and> map (\<lambda>r. r ''Price'') (rows (coerce_numeric parse df)) =
               map (\<lambda>r. coerce_cell parse (r ''Price'')) (rows df)
           \<and> coerce_cell parse NaN = Num 0"
proof -
  let ?f = "price_filter_input parse df"
  let ?keep = "\<lambda>r. \<not> field_value (columns df) r ''Price'' \<le> 8"
  have cols: "columns ?f = columns df"
    and sub: "set (rows ?f) \<subseteq> set (rows (coerce_numeric parse df))"
    using price_filter_input_sub [of parse df] by auto
  have num: "\<exists>v. r ''Price'' = Num v" if "r \<in> set (rows ?f)" for r
    using that sub assms coerced_cell_numeric [of "''Price''" df r parse]
    by (auto simp: numeric_cols_def)
  have test: "\<forall>r\<in>set (rows ?f). cell_gt (r ''Price'') 8 = Inr (?keep r)"
  proof
    fix r assume "r \<in> set (rows ?f)"
    then obtain v where "r ''Price'' = Num v" using num by blast
    with assms show "cell_gt (r ''Price'') 8 = Inr (?keep r)"
      by (simp add: field_value_def row_get_def not_le)
  qed
  have out: "price_filter ?f = Inr (?f\<lparr>rows := filter ?keep (rows ?f)\<rparr>)"
    using select_where_total [OF test] assms cols by (simp add: price_filter_def)
  have ex: "\<forall>r\<in>set (rows ?f).
      (\<exists>v. r ''Price'' = Num v)
      \<and> (r ''Price'' = Num 8 \<longrightarrow> r \<notin> set (filter ?keep (rows ?f)))
      \<and> (r ''Price'' = Num (801 / 100) \<longrightarrow> r \<in> set (filter ?keep (rows ?f)))
      \<and> (r ''Price'' = Num 0 \<longrightarrow> r \<notin> set (filter ?keep (rows ?f)))"
    using num assms by (auto simp: field_value_def row_get_def)
  have col: "map (\<lambda>r. r ''Price'') (rows (coerce_numeric parse df)) =
             map (\<lambda>r. coerce_cell parse (r ''Price'')) (rows df)"
    using assms by (simp add: rows_coerce_numeric numeric_cols_def)
  have nan: "coerce_cell parse NaN = Num 0" by (simp add: coerce_cell_def)
  show ?thesis
    using out cols ex col nan by simp
qed

theorem price_filter_excludes_at_most_8_witness:
  "''Price'' \<in> set (columns price_frame)
   \<and> map (\<lambda>r. r ''Price'') (rows price_frame) = [Num 8, Num (801 / 100), NaN]
   \<and> (\<exists>out. price_filter (price_filter_input parse_digits price_frame) = Inr out
         \<and> map (\<lambda>r. r ''ASIN'') (rows out) = [Str ''B002''])"
proof -
  have c: "''Price'' \<in> set (columns price_frame)" by (simp add: price_frame_def)
  have r: "map (\<lambda>r. r ''Price'') (rows price_frame) = [Num 8, Num (801 / 100), NaN]"
    by (simp add: price_frame_def row_of_def)
  have f: "map (\<lambda>r. r ''ASIN'')
             (filter (\<lambda>r. \<not> field_value (columns price_frame) r ''Price'' \<le> 8)
                (rows (price_filter_input parse_digits price_frame))) = [Str ''B002'']"
    by (simp add: price_filter_input_def brand_filter_def drop_duplicates_def
        rows_coerce_numeric price_frame_def row_of_def field_value_def row_get_def
        numeric_cols_def coerce_cell_def)
  from price_filter_excludes_at_most_8 [OF c, of parse_digits] f
  show ?thesis using c r by auto
qed

section \<open>Overlap counts and deduplication\<close>

lemma fold_count_value:
  "fold count_value vs tab a =
     (if a = NaN \<or> a \<notin> set vs then tab a
      else Some (length (filter (\<lambda>v. v = a) vs) + (case tab a of None \<Rightarrow> 0 | Some n \<Rightarrow> n)))"
proof (induction vs arbitrary: tab)
  case Nil
  show ?case by simp
next
  case (Cons v vs)
  show ?case
    by (simp add: Cons.IH)
      (auto simp: count_value_def filter_empty_conv split: option.splits)
qed

lemma value_counts_eq:
  "value_counts vs a =
     (if a = NaN \<or> a \<notin> set vs then None else Some (length (filter (\<lambda>v. v = a) vs)))"
  by (simp add: value_counts_def fold_count_value)

lemma rename_dict_mem:
  "(c, k) \<in> set (rename_dict cols) \<Longrightarrow> (k, c) \<in> set COLUMN_MAP \<and> c \<in> set cols"
  by (auto simp: rename_dict_def)

lemma COLUMN_MAP_ASIN:
  "(k, c) \<in> set COLUMN_MAP \<Longrightarrow> (k = ''ASIN'') = (c = ''ASIN'')"
  by (auto simp: COLUMN_MAP_def)

lemma new_label_ASIN:
  "(new_label (rename_dict cols) c = ''ASIN'') = (c = ''ASIN'')"
proof (cases "map_of (rev (rename_dict cols)) c")
  case None
  then show ?thesis by (simp add: new_label_def)
next
  case (Some k)
  then have "(c, k) \<in> set (rename_dict cols)"
    using map_of_SomeD by fastforce
  then have "(k, c) \<in> set COLUMN_MAP" using rename_dict_mem by blast
  then have "(k = ''ASIN'') = (c = ''ASIN'')" by (rule COLUMN_MAP_ASIN)
  with Some show ?thesis by (simp add: new_label_def)
qed

lemma find_ASIN:
  "''ASIN'' \<in> set cols \<Longrightarrow>
   find (\<lambda>c. new_label (rename_dict cols0) c = ''ASIN'') cols = Some ''ASIN''"
  by (induction cols) (auto simp: new_label_ASIN)

lemma columns_rename_ASIN:
  "(''ASIN'' \<in> set (columns (rename_columns df))) = (''ASIN'' \<in> set (columns df))"
proof -
  have "(''ASIN'' \<in> new_label (rename_dict (columns df)) ` set (columns df)) =
        (''ASIN'' \<in> set (columns df))"
  proof
    assume "''ASIN'' \<in> new_label (rename_dict (columns df)) ` set (columns df)"
    then obtain c where c: "c \<in> set (columns df)"
      and "new_label (rename_dict (columns df)) c = ''ASIN''"
      by (auto simp del: set_map)
    then have "c = ''ASIN''" by (simp only: new_label_ASIN)
    with c show "''ASIN'' \<in> set (columns df)" by (simp del: set_map)
  next
    assume a: "''ASIN'' \<in> set (columns df)"
    have "new_label (rename_dict (columns df)) ''ASIN'' = ''ASIN''"
      by (simp only: new_label_ASIN)
    with a show "''ASIN'' \<in> new_label (rename_dict (columns df)) ` set (columns df)"
      by (metis imageI)
  qed
  then show ?thesis by (simp add: rename_columns_def Let_def)
qed

lemma asin_rename_columns:
  assumes "''ASIN'' \<in> set (columns df)"
  shows "map (\<lambda>r. r ''ASIN'') (rows (rename_columns df)) = map (\<lambda>r. r ''ASIN'') (rows df)"
  using find_ASIN [OF assms] by (simp add: rename_columns_def Let_def o_def)

lemma asin_coerce_numeric:
  "map (\<lambda>r. r ''ASIN'') (rows (coerce_numeric parse df)) = map (\<lambda>r. r ''ASIN'') (rows df)"
  by (simp add: rows_coerce_numeric o_def numeric_cols_def)

lemma length_filter_concat:
  "length (filter P (concat xss)) = (\<Sum>xs\<leftarrow>xss. length (filter P xs))"
  by (induction xss) simp_all

lemma asin_full_df:
  assumes "''ASIN'' \<in> set (columns (full_df_of parse all_data))"
  shows "map (\<lambda>r. r ''ASIN'') (rows (full_df_of parse all_data)) =
         map (\<lambda>r. r ''ASIN'') (concat (map rows all_data))"
proof -
  from assms have "''ASIN'' \<in> set (columns (concat_frames all_data))"
    by (simp add: full_df_of_def columns_rename_ASIN)
  then have "map (\<lambda>r. r ''ASIN'') (rows (rename_columns (concat_frames all_data))) =
             map (\<lambda>r. r ''ASIN'') (rows (concat_frames all_data))"
    by (rule asin_rename_columns)
  then show ?thesis
    by (simp add: full_df_of_def asin_coerce_numeric concat_frames_def)
qed

lemma filter_map_key: "filter (\<lambda>v. v = a) (map f xs) = map f (filter (\<lambda>x. f x = a) xs)"
  by (induction xs) simp_all

text \<open>
  Claim C2. The count scoring reads for an identifier that occurs in the merged,
  not yet deduplicated rows is the number of those rows that carry it, which is the sum over
  the sources of the rows with it (one per row, also inside one source). An identifier that is
  not in the table, which includes the empty identifier, reads as 1 and earns no overlap
  bonus.
\<close>

theorem overlap_count_is_row_count:
  assumes "''ASIN'' \<in> set (columns (full_df_of parse all_data))"
  shows "series_get (value_counts (map (\<lambda>r. r ''ASIN'') (rows (full_df_of parse all_data)))) a 1 =
           (if a = NaN \<or> a \<notin> (\<lambda>r. r ''ASIN'') ` set (concat (map rows all_data)) then 1
            else length (filter (\<lambda>r. r ''ASIN'' = a) (concat (map rows all_data))))
         \<and> length (filter (\<lambda>r. r ''ASIN'' = a) (concat (map rows all_data))) =
             (\<Sum>df\<leftarrow>all_data. length (filter (\<lambda>r. r ''ASIN'' = a) (rows df)))
         \<and> (value_counts (map (\<lambda>r. r ''ASIN'') (rows (full_df_of parse all_data))) a = None \<longrightarrow>
              series_get (value_counts (map (\<lambda>r. r ''ASIN'') (rows (full_df_of parse all_data)))) a 1
                = 1
              \<and> overlap_bonus
                  (series_get
                     (value_counts (map (\<lambda>r. r ''ASIN'') (rows (full_df_of parse all_data)))) a 1)
                = 0)"
proof -
  let ?ids = "map (\<lambda>r. r ''ASIN'') (concat (map rows all_data))"
  have ids: "map (\<lambda>r. r ''ASIN'') (rows (full_df_of parse all_data)) = ?ids"
    using assms by (rule asin_full_df)
  have len: "length (filter (\<lambda>v. v = a) ?ids) =
             length (filter (\<lambda>r. r ''ASIN'' = a) (concat (map rows all_data)))"
    by (simp only: filter_map_key length_map)
  have 1: "series_get (value_counts ?ids) a 1 =
           (if a = NaN \<or> a \<notin> (\<lambda>r. r ''ASIN'') ` set (concat (map rows all_data)) then 1
            else length (filter (\<lambda>r. r ''ASIN'' = a) (concat (map rows all_data))))"
    unfolding series_get_def value_counts_eq len [symmetric] by (simp del: set_concat)
  have 2: "length (filter (\<lambda>r. r ''ASIN'' = a) (concat (map rows all_data))) =
           (\<Sum>df\<leftarrow>all_data. length (filter (\<lambda>r. r ''ASIN'' = a) (rows df)))"
    by (simp add: length_filter_concat o_def)
  have 3: "value_counts ?ids a = None \<longrightarrow>
           series_get (value_counts ?ids) a 1 = 1
           \<and> overlap_bonus (series_get (value_counts ?ids) a 1) = 0"
    by (simp add: series_get_def overlap_bonus_def)
  show ?thesis unfolding ids using 1 2 3 by blast
qed

lemma ASIN_in_full_df:
  "''ASIN'' \<in> set (columns (concat_frames all_data)) \<Longrightarrow>
   ''ASIN'' \<in> set (columns (full_df_of parse all_data))"
  by (simp add: full_df_of_def columns_rename_ASIN)

theorem overlap_count_is_row_count_witness:
  "''ASIN'' \<in> set (columns (full_df_of parse_digits [list_a, list_b]))
   \<and> series_get
       (value_counts (map (\<lambda>r. r ''ASIN'') (rows (full_df_of parse_digits [list_a, list_b]))))
       (Str ''B001'') 1 = 2
   \<and> series_get
       (value_counts (map (\<lambda>r. r ''ASIN'') (rows (full_df_of parse_digits [list_a, list_b]))))
       (Str ''B002'') 1 = 1
   \<and> series_get
       (value_counts (map (\<lambda>r. r ''ASIN'') (rows (full_df_of parse_digits [list_a, list_b]))))
       NaN 1 = 1"
proof -
  have c: "''ASIN'' \<in> set (columns (full_df_of parse_digits [list_a, list_b]))"
    by (rule ASIN_in_full_df)
      (simp add: concat_frames_def union_labels_def add_label_def list_a_def list_b_def)
  show ?thesis
    using c overlap_count_is_row_count [OF c, of "Str ''B001''"]
      overlap_count_is_row_count [OF c, of "Str ''B002''"]
      overlap_count_is_row_count [OF c, of NaN]
    by (simp add: list_a_def list_b_def row_of_def)
qed

lemma keep_first_filter:
  "filter (\<lambda>r. r c = a) (keep_first c seen rs) =
     (if a \<in> set seen then []
      else case find (\<lambda>r. r c = a) rs of None \<Rightarrow> [] | Some r0 \<Rightarrow> [r0])"
  by (induction rs arbitrary: seen) auto

lemma find_append_left:
  "\<exists>x\<in>set xs. P x \<Longrightarrow> find P (xs @ ys) = find P xs"
  by (induction xs) auto

text \<open>
  Claim C4. Of the rows that share an identifier, deduplication keeps exactly the first in
  concatenation order, unchanged, and no other; when the identifier occurs in a prefix of the
  rows (the earlier sources), the kept row is the first one of that prefix.
\<close>

theorem drop_duplicates_keeps_first:
  assumes "find (\<lambda>r. r ''ASIN'' = a) (rows df) = Some r0"
  shows "filter (\<lambda>r. r ''ASIN'' = a) (rows (drop_duplicates ''ASIN'' df)) = [r0]
         \<and> columns (drop_duplicates ''ASIN'' df) = columns df
         \<and> set (rows (drop_duplicates ''ASIN'' df)) \<subseteq> set (rows df)
         \<and> (\<forall>xs ys. rows df = xs @ ys \<and> (\<exists>r\<in>set xs. r ''ASIN'' = a) \<longrightarrow>
               find (\<lambda>r. r ''ASIN'' = a) xs = Some r0)"
proof -
  have 1: "filter (\<lambda>r. r ''ASIN'' = a) (rows (drop_duplicates ''ASIN'' df)) = [r0]"
    using assms by (simp add: drop_duplicates_def keep_first_filter)
  have 2: "\<forall>xs ys. rows df = xs @ ys \<and> (\<exists>r\<in>set xs. r ''ASIN'' = a) \<longrightarrow>
               find (\<lambda>r. r ''ASIN'' = a) xs = Some r0"
    using assms find_append_left [of _ "\<lambda>r. r ''ASIN'' = a"] by metis
  show ?thesis
    using 1 2 drop_duplicates_sub [of "''ASIN''" df] by blast
qed

theorem drop_duplicates_keeps_first_witness:
  "find (\<lambda>r. r ''ASIN'' = Str ''B001'') (rows (concat_frames [list_a, list_b])) =
     Some (hd (rows list_a))
   \<and> map (\<lambda>r. r ''Price'')
       (filter (\<lambda>r. r ''ASIN'' = Str ''B001'') (rows (concat_frames [list_a, list_b])))
     = [Num 10, Num 99]
   \<and> map (\<lambda>r. r ''Price'')
       (filter (\<lambda>r. r ''ASIN'' = Str ''B001'')
          (rows (drop_duplicates ''ASIN'' (concat_frames [list_a, list_b]))))
     = [Num 10]"
proof -
  have f: "find (\<lambda>r. r ''ASIN'' = Str ''B001'') (rows (concat_frames [list_a, list_b])) =
           Some (hd (rows list_a))"
    by (simp add: concat_frames_def list_a_def list_b_def row_of_def)
  have p: "map (\<lambda>r. r ''Price'')
       (filter (\<lambda>r. r ''ASIN'' = Str ''B001'') (rows (concat_frames [list_a, list_b])))
     = [Num 10, Num 99]"
    by (simp add: concat_frames_def list_a_def list_b_def row_of_def)
  have h: "hd (rows list_a) ''Price'' = Num 10"
    by (simp add: list_a_def row_of_def)
  from drop_duplicates_keeps_first [OF f] f p h show ?thesis by simp
qed

section \<open>Ranking\<close>

lemma sorts_descending_stable_sort: "sorts_descending stable_sort"
proof -
  have "sorted_wrt (\<lambda>a b. tpi a \<ge> tpi b) (sort_key (\<lambda>r. - tpi r) xs)" for xs
  proof -
    have "sorted (map (\<lambda>r. - tpi r) (sort_key (\<lambda>r. - tpi r) xs))"
      by (rule sorted_sort_key)
    then show ?thesis by (simp add: sorted_map)
  qed
  then show ?thesis by (simp add: sorts_descending_def stable_sort_def)
qed

lemma sorts_descending_reversing_sort: "sorts_descending reversing_sort"
proof -
  have "sorted_wrt (\<lambda>a b. tpi a \<ge> tpi b) (rev (sort_key tpi xs))" for xs
  proof -
    have "sorted (map tpi (sort_key tpi xs))" by (rule sorted_sort_key)
    then have "sorted_wrt (\<lambda>a b. tpi a \<le> tpi b) (sort_key tpi xs)" by (simp add: sorted_map)
    then show ?thesis by (simp add: sorted_wrt_rev)
  qed
  then show ?thesis by (simp add: sorts_descending_def reversing_sort_def)
qed

lemma top_slice:
  assumes "mset ys = mset xs" and "sorted_wrt P ys"
  shows "length (take n ys) = min n (length xs)
         \<and> sorted_wrt P (take n ys)
         \<and> mset (take n ys) \<subseteq># mset xs
         \<and> (\<forall>a\<in>set (take n ys). \<forall>b\<in>#(mset xs - mset (take n ys)). P a b)
         \<and> (length xs \<le> n \<longrightarrow> mset (take n ys) = mset xs)"
proof -
  have len: "length ys = length xs" using assms(1) by (rule mset_eq_length)
  have split: "mset xs = mset (take n ys) + mset (drop n ys)"
    using assms(1) by (metis append_take_drop_id mset_append)
  have rest: "mset xs - mset (take n ys) = mset (drop n ys)"
    unfolding split by simp
  have "sorted_wrt P (take n ys @ drop n ys)" using assms(2) by simp
  then have ord: "\<forall>a\<in>set (take n ys). \<forall>b\<in>set (drop n ys). P a b"
    and srt: "sorted_wrt P (take n ys)"
    unfolding sorted_wrt_append by auto
  have sub: "mset (take n ys) \<subseteq># mset xs" unfolding split by simp
  have all: "length xs \<le> n \<longrightarrow> mset (take n ys) = mset xs"
    using len assms(1) by simp
  show ?thesis
    using len srt sub all ord unfolding rest by (simp add: min.commute)
qed




section \<open>The whole function\<close>

lemma read_all_failure: "read_all (pre @ (None, source_name) # post) all_data = None"
  by (induction pre arbitrary: all_data) (auto split: option.splits)

text \<open>
  Claim C10. Called with an empty list of sources the function returns \<^verbatim>\<open>None\<close>, and it
  returns \<^verbatim>\<open>None\<close> as well when any source fails to be read, whatever the other sources
  are: it does not return an empty table.
\<close>

theorem empty_input_returns_none:
  "process_temu_selection parse srt [] = Inr None
   \<and> process_temu_selection parse srt (pre @ (None, source_name) # post) = Inr None"
  by (simp add: process_temu_selection_def read_all_failure)

theorem empty_input_returns_none_witness:
  "process_temu_selection parse_digits stable_sort [] = Inr None
   \<and> process_temu_selection parse_digits stable_sort
       (cheap_input @ (None, ''List_B_Rating'') # cheap_input) = Inr None"
  using empty_input_returns_none [of parse_digits stable_sort cheap_input "''List_B_Rating''"
      cheap_input]
  by simp


lemma strip_SKU: "strip '' SKU '' = ''SKU''"
  by (simp add: strip_def is_space_def)

lemma strip_plain [simp]:
  "strip ''Name'' = ''Name''" "strip ''ASIN'' = ''ASIN''" "strip ''Price'' = ''Price''"
  "strip ''Title'' = ''Title''" "strip ''Monthly_Sales'' = ''Monthly_Sales''"
  "strip ''Sales_Growth'' = ''Sales_Growth''" "strip ''Ratings'' = ''Ratings''"
  "strip ''SKU'' = ''SKU''"
  by (simp_all add: strip_def is_space_def)

lemma rename_dict_canonical:
  "rename_dict [''SKU'', ''Name'', ''Source_List''] = [(''SKU'', ''SKU'')]"
  "rename_dict [''ASIN'', ''Price'', ''Source_List''] = [(''ASIN'', ''ASIN'')]"
  "rename_dict [''ASIN'', ''Title'', ''Price'', ''Monthly_Sales'', ''Sales_Growth'', ''Ratings'',
                ''SKU'', ''Source_List''] = [(''ASIN'', ''ASIN''), (''SKU'', ''SKU'')]"
  by (simp_all add: rename_dict_def COLUMN_MAP_def)

lemma no_asin_frames:
  "read_all no_asin_input [] =
     Some [assign ''Source_List'' (\<lambda>r. Str ''List_A_Growth'')
             (frame_of_sheet \<lparr>headers = ['' SKU '', ''Name''],
                              body = [[Str ''X1'', Str ''Widget'']]\<rparr>)]"
  by (simp add: no_asin_input_def)

lemma no_asin_columns:
  "columns (rename_columns (concat_frames
     [assign ''Source_List'' (\<lambda>r. Str ''List_A_Growth'')
        (frame_of_sheet \<lparr>headers = ['' SKU '', ''Name''],
                         body = [[Str ''X1'', Str ''Widget'']]\<rparr>)])) =
   [''SKU'', ''Name'', ''Source_List'']"
  by (simp add: rename_columns_def concat_frames_def union_labels_def assign_def add_label_def
      frame_of_sheet_def strip_SKU Let_def rename_dict_canonical new_label_def)


lemma srt_Nil: "sorts_descending srt \<Longrightarrow> srt [] = []"
proof -
  assume "sorts_descending srt"
  then have "mset (srt []) = mset []" unfolding sorts_descending_def by blast
  then show "srt [] = []" by simp
qed

lemma output_cols_extended:
  "output_cols (add_label ''Amazon_URL'' (add_label ''TPI_Score'' cols)) = output_cols cols"
  by (simp add: output_cols_def optional_cols_def add_label_def)

lemma project_empty:
  assumes "''ASIN'' \<in> set cols" and "list_all (\<lambda>c. c \<in> set cols) needed_cols"
  shows "project (output_cols cols)
           \<lparr>columns = add_label ''Amazon_URL'' (add_label ''TPI_Score'' cols), rows = []\<rparr> =
         Inr \<lparr>columns = output_cols cols, rows = []\<rparr>"
proof -
  have "list_all (\<lambda>c. c \<in> set (add_label ''Amazon_URL'' (add_label ''TPI_Score'' cols)))
          (output_cols cols)"
    using assms
    by (auto simp: output_cols_def required_cols_def needed_cols_def add_label_def list_all_iff)
  then show ?thesis by (simp add: project_def)
qed


lemma cheap_read: "read_all cheap_input [] = Some cheap_frames"
  by (simp add: cheap_input_def cheap_frames_def)

lemma cheap_concat_columns:
  "columns (concat_frames cheap_frames) = [''ASIN'', ''Price'', ''Source_List'']"
  by (simp add: cheap_frames_def concat_frames_def union_labels_def assign_def add_label_def
      frame_of_sheet_def Let_def)

lemma cheap_columns:
  "columns (full_df_of parse cheap_frames) = [''ASIN'', ''Price'', ''Source_List'']"
  by (simp add: full_df_of_def rename_columns_def Let_def cheap_concat_columns
      rename_dict_canonical new_label_def)

lemma cheap_rows:
  "\<exists>r. rows (full_df_of parse cheap_frames) = [r] \<and> r ''Price'' = Num 5
       \<and> r ''ASIN'' = Str ''B001''"
  by (simp add: full_df_of_def rows_coerce_numeric rename_columns_def Let_def
      cheap_concat_columns rename_dict_canonical new_label_def numeric_cols_def
      coerce_cell_def)
    (simp add: cheap_frames_def concat_frames_def assign_def frame_of_sheet_def Let_def
      row_of_def coerce_cell_def)

lemma cheap_filtered:
  "filter_stage (drop_duplicates ''ASIN'' (full_df_of parse cheap_frames)) =
     Inr \<lparr>columns = [''ASIN'', ''Price'', ''Source_List''], rows = []\<rparr>"
proof -
  obtain r where r: "rows (full_df_of parse cheap_frames) = [r]" and p: "r ''Price'' = Num 5"
    using cheap_rows by blast
  have "drop_duplicates ''ASIN'' (full_df_of parse cheap_frames) =
        \<lparr>columns = [''ASIN'', ''Price'', ''Source_List''], rows = [r]\<rparr>"
    using r cheap_columns [of parse] by (simp add: drop_duplicates_def)
  then show ?thesis
    using p
    by (simp add: filter_stage_def brand_filter_def price_filter_def weight_filter_def
        select_where_def bnd_def)
qed

lemma cheap_renamed_columns:
  "columns (rename_columns (concat_frames cheap_frames)) = [''ASIN'', ''Price'', ''Source_List'']"
  using cheap_columns [of parse_digits] by (simp add: full_df_of_def)

lemma cheap_distinct: "distinct_labels cheap_frames"
  unfolding distinct_labels_def cheap_renamed_columns
  by (simp add: cheap_frames_def assign_def add_label_def frame_of_sheet_def Let_def)

lemma cheap_nonempty: "cheap_frames \<noteq> []"
  by (simp add: cheap_frames_def)

lemma cheap_object: "is_object (full_df_of parse cheap_frames) ''ASIN''"
  using cheap_rows [of parse] by (auto simp: is_object_def)


lemma full_read: "read_all cheap_full_input [] = Some cheap_full_frames"
  by (simp add: cheap_full_input_def cheap_full_frames_def)

lemma full_concat_columns:
  "columns (concat_frames cheap_full_frames) =
     [''ASIN'', ''Title'', ''Price'', ''Monthly_Sales'', ''Sales_Growth'', ''Ratings'', ''SKU'',
      ''Source_List'']"
  by (simp add: cheap_full_frames_def concat_frames_def union_labels_def assign_def
      add_label_def frame_of_sheet_def Let_def)

lemma full_columns:
  "columns (full_df_of parse cheap_full_frames) =
     [''ASIN'', ''Title'', ''Price'', ''Monthly_Sales'', ''Sales_Growth'', ''Ratings'', ''SKU'',
      ''Source_List'']"
  by (simp add: full_df_of_def rename_columns_def Let_def full_concat_columns
      rename_dict_canonical new_label_def)

lemma full_distinct: "distinct_labels cheap_full_frames"
proof -
  have "columns (rename_columns (concat_frames cheap_full_frames)) =
     [''ASIN'', ''Title'', ''Price'', ''Monthly_Sales'', ''Sales_Growth'', ''Ratings'', ''SKU'',
      ''Source_List'']"
    using full_columns [of parse_digits] by (simp add: full_df_of_def)
  then show ?thesis
    unfolding distinct_labels_def
    by (simp add: cheap_full_frames_def assign_def add_label_def frame_of_sheet_def Let_def)
qed

lemma full_rows:
  "\<exists>r. rows (full_df_of parse cheap_full_frames) = [r] \<and> r ''Price'' = Num 5
       \<and> r ''ASIN'' = Str ''B001''"
  by (simp add: full_df_of_def rows_coerce_numeric rename_columns_def Let_def
      full_concat_columns rename_dict_canonical new_label_def numeric_cols_def)
    (simp add: cheap_full_frames_def concat_frames_def assign_def frame_of_sheet_def Let_def
      row_of_def coerce_cell_def)

lemma full_filtered:
  "filter_stage (drop_duplicates ''ASIN'' (full_df_of parse cheap_full_frames)) =
     Inr \<lparr>columns = columns (full_df_of parse cheap_full_frames), rows = []\<rparr>"
proof -
  obtain r where r: "rows (full_df_of parse cheap_full_frames) = [r]"
    and p: "r ''Price'' = Num 5"
    using full_rows by blast
  have "drop_duplicates ''ASIN'' (full_df_of parse cheap_full_frames) =
        \<lparr>columns = columns (full_df_of parse cheap_full_frames), rows = [r]\<rparr>"
    using r by (simp add: drop_duplicates_def)
  then show ?thesis
    using p full_columns [of parse]
    by (simp add: filter_stage_def brand_filter_def price_filter_def weight_filter_def
        select_where_def bnd_def)
qed


end
